theory Spec2Isabelle
  imports Complex_Main "HOL-Library.AList"
begin

section \<open>Python values\<close>

text \<open>
  The form snapshot, the extracted lab results and the threshold catalog hold Python
  scalars. A float is modelled by the exact rational it denotes, or one of the three
  special values; comparing two floats, or an int with a float, is exact in Python, so
  nothing is lost for \<open><=\<close>, \<open>!=\<close> and truthiness. \<open>-0.0\<close> and \<open>0.0\<close> are both
  \<open>Finite 0\<close> (they compare equal and are both falsy). Lists, dicts and dates as
  values are not modelled. In the examples a decimal literal such as \<open>8.2\<close> is written
  as the rational \<open>41 / 5\<close>; the double it denotes is the nearest one, and every
  comparison made on the examples comes out the same for both.
\<close>

datatype pyfloat = Finite rat | PosInf | NegInf | NaN

datatype pyval = PyNone | PyBool bool | PyInt int | PyFloat pyfloat | PyStr string

text \<open>
  The exceptions: \<open>TypeError\<close> and \<open>KeyError\<close> are raised by the code modelled here,
  \<open>OSError\<close> and \<open>JSONDecodeError\<close> by opening and decoding \<open>rules.json\<close>,
  \<open>PDFError\<close> stands for whatever the PDF processor raises, and \<open>ConfigError\<close> is the
  error the spec names for a malformed catalog.
\<close>

datatype error = TypeError | KeyError | OSError | JSONDecodeError | PDFError | ConfigError

text \<open>\<open>x <= y\<close> on floats: every comparison with \<open>nan\<close> is false.\<close>

fun float_le :: "pyfloat \<Rightarrow> pyfloat \<Rightarrow> bool" where
  "float_le NaN y = False"
| "float_le x NaN = False"
| "float_le NegInf y = True"
| "float_le x PosInf = True"
| "float_le (Finite a) (Finite b) = (a \<le> b)"
| "float_le x y = False"

text \<open>\<open>x < y\<close> and \<open>x == y\<close> on floats.\<close>

definition float_lt :: "pyfloat \<Rightarrow> pyfloat \<Rightarrow> bool" where
  "float_lt x y = (float_le x y \<and> \<not> float_le y x)"

definition float_eq :: "pyfloat \<Rightarrow> pyfloat \<Rightarrow> bool" where
  "float_eq x y = (x \<noteq> NaN \<and> y \<noteq> NaN \<and> x = y)"

text \<open>
  The numeric tower: \<open>bool\<close> is a subclass of \<open>int\<close> (\<open>True == 1\<close>), and ints
  compare with floats by value. \<open>None\<close> and strings are not numbers.
\<close>

fun as_number :: "pyval \<Rightarrow> pyfloat option" where
  "as_number (PyBool b) = Some (Finite (if b then 1 else 0))"
| "as_number (PyInt i) = Some (Finite (of_int i))"
| "as_number (PyFloat x) = Some x"
| "as_number PyNone = None"
| "as_number (PyStr s) = None"

text \<open>Strings compare lexicographically by code point.\<close>

fun str_le :: "string \<Rightarrow> string \<Rightarrow> bool" where
  "str_le [] t = True"
| "str_le (c # cs) [] = False"
| "str_le (c # cs) (d # ds) =
     (if c = d then str_le cs ds else (of_char c :: nat) < of_char d)"

text \<open>
  \<open>v <= w\<close>: defined between two numbers and between two strings; every other pair of
  the modelled values raises \<open>TypeError\<close>.
\<close>

definition py_le :: "pyval \<Rightarrow> pyval \<Rightarrow> error + bool" where
  "py_le v w =
     (case (as_number v, as_number w) of
        (Some x, Some y) \<Rightarrow> Inr (float_le x y)
      | _ \<Rightarrow> (case (v, w) of
                 (PyStr s, PyStr t) \<Rightarrow> Inr (str_le s t)
               | _ \<Rightarrow> Inl TypeError))"

text \<open>\<open>v == w\<close> and \<open>v != w\<close> never raise; values of different kinds are unequal.\<close>

definition py_eq :: "pyval \<Rightarrow> pyval \<Rightarrow> bool" where
  "py_eq v w =
     (case (as_number v, as_number w) of
        (Some x, Some y) \<Rightarrow> float_eq x y
      | _ \<Rightarrow> v = w)"

definition py_ne :: "pyval \<Rightarrow> pyval \<Rightarrow> bool" where
  "py_ne v w = (\<not> py_eq v w)"

text \<open>Truthiness, as \<open>if v\<close> and \<open>v and ...\<close> test it.\<close>

fun truthy :: "pyval \<Rightarrow> bool" where
  "truthy PyNone = False"
| "truthy (PyBool b) = b"
| "truthy (PyInt i) = (i \<noteq> 0)"
| "truthy (PyFloat x) = (x \<noteq> Finite 0)"
| "truthy (PyStr s) = (s \<noteq> [])"

text \<open>
  A \<open>dict\<close> is an association list with distinct keys in insertion order;
  \<open>d[k] = v\<close> is \<open>AList.update k v d\<close>, \<open>k in d\<close> is \<open>map_of d k \<noteq> None\<close>,
  and \<open>d.get(k, dflt)\<close> is \<open>dict_get\<close>.
\<close>

type_synonym 'v pydict = "(string \<times> 'v) list"

definition dict_get :: "'v pydict \<Rightarrow> string \<Rightarrow> 'v \<Rightarrow> 'v" where
  "dict_get d k dflt = (case map_of d k of None \<Rightarrow> dflt | Some v \<Rightarrow> v)"

section \<open>Traffic-light classification (rules/__init__.py)\<close>

text \<open>
  The rules document is the dict read from \<open>rules.json\<close>. Only its key \<open>'traffic'\<close> is
  read here: when present it maps a metric name to the dict of that metric's thresholds.
\<close>

record rules =
  traffic :: "pyval pydict pydict option"

text \<open>\<open>rules.get('traffic', {})\<close>\<close>

definition traffic_table :: "rules \<Rightarrow> pyval pydict pydict" where
  "traffic_table rules = (case traffic rules of None \<Rightarrow> [] | Some t \<Rightarrow> t)"

text \<open>
  \<open>get_traffic_light_status\<close>: an unknown metric is \<open>'amber'\<close>; otherwise the value is
  compared with \<open>green_max\<close>, and only when that fails with \<open>amber_max\<close>, a missing bound
  being \<open>float('inf')\<close>. A comparison that raises ends the call with its error.
\<close>

definition get_traffic_light_status :: "string \<Rightarrow> pyval \<Rightarrow> rules \<Rightarrow> error + string" where
  "get_traffic_light_status metric_name val rules =
     (case map_of (traffic_table rules) metric_name of
        None \<Rightarrow> Inr ''amber''
      | Some thresholds \<Rightarrow>
          (case py_le val (dict_get thresholds ''green_max'' (PyFloat PosInf)) of
             Inl e \<Rightarrow> Inl e
           | Inr le_green \<Rightarrow>
               if le_green then Inr ''green''
               else (case py_le val (dict_get thresholds ''amber_max'' (PyFloat PosInf)) of
                       Inl e \<Rightarrow> Inl e
                     | Inr le_amber \<Rightarrow> if le_amber then Inr ''amber'' else Inr ''red'')))"

text \<open>
  \<open>load_rules\<close> opens \<open>rules.json\<close> beside the module and returns what \<open>json.load\<close>
  makes of it. The file system and the JSON decoder are library code: \<open>open_file\<close> is the
  outcome of opening and reading the file, \<open>json_load\<close> the decoder. Either may raise,
  and \<open>load_rules\<close> catches nothing and checks nothing.
\<close>

definition load_rules :: "(error + 'text) \<Rightarrow> ('text \<Rightarrow> error + 'doc) \<Rightarrow> error + 'doc" where
  "load_rules open_file json_load =
     (case open_file of Inl e \<Rightarrow> Inl e | Inr f \<Rightarrow> json_load f)"

text \<open>A catalog whose bounds, where given, are numbers.\<close>

definition numeric_bounds :: "pyval pydict \<Rightarrow> bool" where
  "numeric_bounds thresholds =
     (as_number (dict_get thresholds ''green_max'' (PyFloat PosInf)) \<noteq> None \<and>
      as_number (dict_get thresholds ''amber_max'' (PyFloat PosInf)) \<noteq> None)"

definition numeric_catalog :: "rules \<Rightarrow> bool" where
  "numeric_catalog rules = list_all (\<lambda>(m, thresholds). numeric_bounds thresholds) (traffic_table rules)"

text \<open>The catalog of the spec's example: HbA1c with \<open>green_max = 7.0\<close>, \<open>amber_max = 9.0\<close>.\<close>

definition hba1c_thresholds :: "pyval pydict" where
  "hba1c_thresholds =
     [(''green_max'', PyFloat (Finite 7)), (''amber_max'', PyFloat (Finite 9)),
      (''direction'', PyStr ''higher_is_worse'')]"

definition example_rules :: rules where
  "example_rules = \<lparr>traffic = Some [(''hba1c'', hba1c_thresholds)]\<rparr>"

section \<open>Reconciliation of form and document (app_enhanced.py)\<close>

text \<open>
  A conflict is the dict \<open>{'form_value': ..., 'pdf_value': ..., 'unit': ...}\<close> that
  \<open>process_pdf\<close> builds; it has these three keys and no other.
\<close>

record conflict =
  form_value :: pyval
  pdf_value :: pyval
  unit :: pyval

text \<open>
  The body of the loop of \<open>process_pdf\<close> for one item of \<open>lab_data.items()\<close>: the
  conflict to store under \<open>test_name\<close>, if any. \<open>and\<close> evaluates \<open>result['value']\<close>
  only when the form value is truthy; a result without that key then raises \<open>KeyError\<close>.
\<close>

definition conflict_of :: "pyval pydict \<Rightarrow> string \<Rightarrow> pyval pydict \<Rightarrow> error + conflict option" where
  "conflict_of patient test_name result =
     (let form_val = dict_get patient test_name PyNone in
      if truthy form_val then
        (case map_of result ''value'' of
           None \<Rightarrow> Inl KeyError
         | Some v \<Rightarrow>
             if py_ne form_val v
             then Inr (Some \<lparr>form_value = form_val, pdf_value = v,
                             unit = dict_get result ''unit'' (PyStr [])\<rparr>)
             else Inr None)
      else Inr None)"

text \<open>The loop itself, over the items in order; \<open>conflicts\<close> starts as \<open>{}\<close>.\<close>

fun detect_conflicts ::
  "pyval pydict \<Rightarrow> pyval pydict pydict \<Rightarrow> conflict pydict \<Rightarrow> error + conflict pydict" where
  "detect_conflicts patient [] conflicts = Inr conflicts"
| "detect_conflicts patient ((test_name, result) # items) conflicts =
     (case conflict_of patient test_name result of
        Inl e \<Rightarrow> Inl e
      | Inr None \<Rightarrow> detect_conflicts patient items conflicts
      | Inr (Some c) \<Rightarrow> detect_conflicts patient items (AList.update test_name c conflicts))"

text \<open>
  The part of \<open>st.session_state\<close> that \<open>process_pdf\<close> and \<open>render_conflict_chip\<close>
  read and write. \<open>patient_data\<close> is the form snapshot, the dict that the rule engine
  later evaluates; \<open>lab_data\<close> maps a test name to its extracted result, a dict with the
  keys \<open>'value'\<close> and \<open>'unit'\<close>; \<open>conflicts\<close> maps a test name to its conflict.
\<close>

record session_state =
  patient_data :: "pyval pydict"
  lab_data :: "pyval pydict pydict"
  pdf_text :: "string option"
  conflicts :: "conflict pydict"

text \<open>
  The PDF processor is not part of the reconciliation: its two methods are parameters.
  Each returns its result or raises.
\<close>

record 'f pdf_processor =
  extract_text :: "'f \<Rightarrow> error + string"
  parse_lab_results :: "string \<Rightarrow> error + pyval pydict pydict"

text \<open>
  \<open>process_pdf\<close>. Without an uploaded file nothing happens. Any exception inside
  \<open>try\<close> is caught (and reported in the sidebar, which is not modelled): the session
  then keeps what had been assigned before the exception, so \<open>pdf_text\<close> may be new
  while \<open>lab_data\<close> and \<open>conflicts\<close> are the old ones. \<open>patient_data\<close> is never
  assigned.
\<close>

definition process_pdf :: "'f pdf_processor \<Rightarrow> 'f option \<Rightarrow> session_state \<Rightarrow> session_state" where
  "process_pdf processor uploaded_file st =
     (case uploaded_file of
        None \<Rightarrow> st
      | Some file \<Rightarrow>
          (case extract_text processor file of
             Inl e \<Rightarrow> st
           | Inr text \<Rightarrow>
               (let st1 = st\<lparr>pdf_text := Some text\<rparr> in
                case parse_lab_results processor text of
                  Inl e \<Rightarrow> st1
                | Inr lab \<Rightarrow>
                    (case detect_conflicts (patient_data st1) lab [] of
                       Inl e \<Rightarrow> st1
                     | Inr found \<Rightarrow> st1\<lparr>lab_data := lab, conflicts := found\<rparr>))))"

text \<open>
  \<open>render_conflict_chip\<close>: \<open>resolution\<close> is what the radio button returns, one of its
  two options. Only \<open>"Use PDF value"\<close> writes, and it writes the patient data; the
  conflict itself is never changed.
\<close>

definition render_conflict_chip :: "string \<Rightarrow> string \<Rightarrow> conflict \<Rightarrow> session_state \<Rightarrow> session_state" where
  "render_conflict_chip resolution test_name conflict st =
     (if resolution = ''Use PDF value''
      then st\<lparr>patient_data := AList.update test_name (pdf_value conflict) (patient_data st)\<rparr>
      else st)"

text \<open>
  The loop of \<open>render_patient_form\<close> that shows the conflicts, over
  \<open>st.session_state.conflicts.items()\<close> in order. \<open>radio\<close> gives, for the key of a radio
  button, the option it returns; the chip of \<open>test_name\<close> asks for the key
  \<open>resolve_\<close> followed by \<open>test_name\<close>.
\<close>

fun render_chips :: "(string \<Rightarrow> string) \<Rightarrow> conflict pydict \<Rightarrow> session_state \<Rightarrow> session_state" where
  "render_chips radio [] st = st"
| "render_chips radio ((test_name, conflict) # items) st =
     render_chips radio items
       (render_conflict_chip (radio (''resolve_'' @ test_name)) test_name conflict st)"

definition show_conflicts :: "(string \<Rightarrow> string) \<Rightarrow> session_state \<Rightarrow> session_state" where
  "show_conflicts radio st =
     (if conflicts st \<noteq> [] then render_chips radio (conflicts st) st else st)"

text \<open>
  The upload part of section 4 of \<open>render_patient_form\<close>, in one run of the script:
  with a file uploaded and the button "Extract Lab Data" pressed, \<open>process_pdf\<close> runs;
  then the conflicts of the session, if there are any, are shown.
\<close>

definition lab_results_section ::
  "'f pdf_processor \<Rightarrow> 'f option \<Rightarrow> bool \<Rightarrow> (string \<Rightarrow> string) \<Rightarrow> session_state \<Rightarrow> session_state" where
  "lab_results_section processor uploaded_file button radio st =
     show_conflicts radio
       (case uploaded_file of
          None \<Rightarrow> st
        | Some file \<Rightarrow> if button then process_pdf processor uploaded_file st else st)"

text \<open>
  A document as the extraction yields it: a dict (distinct test names) whose results all
  have a \<open>'value'\<close>.
\<close>

definition is_document :: "pyval pydict pydict \<Rightarrow> bool" where
  "is_document document =
     (distinct (map fst document) \<and>
      list_all (\<lambda>(test_name, result). map_of result ''value'' \<noteq> None) document)"

text \<open>A processor that reads the text \<open>t\<close> from any file and parses it to \<open>lab\<close>.\<close>

definition reads :: "string \<Rightarrow> pyval pydict pydict \<Rightarrow> unit pdf_processor" where
  "reads t lab = \<lparr>extract_text = (\<lambda>f. Inr t), parse_lab_results = (\<lambda>s. Inr lab)\<rparr>"

text \<open>The spec's scenario: the form has HbA1c 8.2, the report says 9.4 \<open>%\<close>.\<close>

definition form_82 :: session_state where
  "form_82 = \<lparr>patient_data = [(''hba1c'', PyFloat (Finite (41 / 5)))], lab_data = [],
              pdf_text = None, conflicts = []\<rparr>"

definition report_94 :: "pyval pydict pydict" where
  "report_94 = [(''hba1c'', [(''value'', PyFloat (Finite (47 / 5))), (''unit'', PyStr ''%'')])]"

definition conflict_94 :: conflict where
  "conflict_94 = \<lparr>form_value = PyFloat (Finite (41 / 5)), pdf_value = PyFloat (Finite (47 / 5)),
                   unit = PyStr ''%''\<rparr>"

text \<open>A session with an empty form, and forms and reports about a count that can be 0.\<close>

definition form_empty :: session_state where
  "form_empty = \<lparr>patient_data = [], lab_data = [], pdf_text = None, conflicts = []\<rparr>"

definition form_hypos :: "int \<Rightarrow> session_state" where
  "form_hypos n = \<lparr>patient_data = [(''hypo_episodes'', PyInt n)], lab_data = [],
                   pdf_text = None, conflicts = []\<rparr>"

definition report_hypos :: "int \<Rightarrow> pyval pydict pydict" where
  "report_hypos n = [(''hypo_episodes'', [(''value'', PyInt n)])]"

text \<open>The same form against a report that agrees on HbA1c and adds LDL.\<close>

definition report_82 :: "pyval pydict pydict" where
  "report_82 = [(''hba1c'', [(''value'', PyFloat (Finite (41 / 5))), (''unit'', PyStr ''%'')]),
                (''ldl'', [(''value'', PyFloat (Finite (5 / 2))), (''unit'', PyStr ''mmol/L'')])]"

text \<open>
  The session after the scenario's conflict was resolved with "Use PDF value", and a
  later report with another HbA1c.
\<close>

definition resolved_94 :: session_state where
  "resolved_94 = \<lparr>patient_data = [(''hba1c'', PyFloat (Finite (47 / 5)))], lab_data = report_94,
                  pdf_text = Some ''HbA1c 9.4 %'', conflicts = [(''hba1c'', conflict_94)]\<rparr>"

definition report_101 :: "pyval pydict pydict" where
  "report_101 = [(''hba1c'', [(''value'', PyFloat (Finite (101 / 10))), (''unit'', PyStr ''%'')])]"


text \<open>A rules document whose HbA1c bounds are the wrong way round.\<close>

definition inverted_rules :: rules where
  "inverted_rules = \<lparr>traffic = Some [(''hba1c'',
      [(''green_max'', PyFloat (Finite 9)), (''amber_max'', PyFloat (Finite 7))])]\<rparr>"

text \<open>A decoder for a file whose text is the JSON of \<open>doc\<close>.\<close>

definition decodes_to :: "'doc \<Rightarrow> string \<Rightarrow> error + 'doc" where
  "decodes_to doc text = Inr doc"

text \<open>
  The radio buttons of a run: the one with the key \<open>key\<close> returns \<open>choice\<close>, every
  other one its first option.
\<close>

definition selected :: "string \<Rightarrow> string \<Rightarrow> string \<Rightarrow> string" where
  "selected key choice k = (if k = key then choice else ''Keep form value'')"

text \<open>The session of the scenario after the merge, with its conflict pending.\<close>

definition merged_94 :: session_state where
  "merged_94 = process_pdf (reads ''HbA1c 9.4 %'' report_94) (Some ()) form_82"

section \<open>Helper lemmas\<close>

lemma float_le_trans_strict:
  "float_le g a \<Longrightarrow> float_lt a x \<Longrightarrow> \<not> float_le x g"
  by (cases g; cases a; cases x) (auto simp: float_lt_def)

lemma py_le_numbers:
  "as_number v = Some x \<Longrightarrow> as_number w = Some y \<Longrightarrow> py_le v w = Inr (float_le x y)"
  by (simp add: py_le_def)

lemma py_le_not_number:
  "as_number v = None \<Longrightarrow> as_number w = Some y \<Longrightarrow> py_le v w = Inl TypeError"
  by (cases v) (auto simp: py_le_def split: pyval.splits)

lemma numeric_catalogD:
  "numeric_catalog rules \<Longrightarrow> map_of (traffic_table rules) m = Some th \<Longrightarrow> numeric_bounds th"
  unfolding numeric_catalog_def list_all_iff
  by (auto dest: map_of_SomeD)

lemma conflict_of_total:
  "map_of result ''value'' \<noteq> None \<Longrightarrow> \<exists>r. conflict_of patient test_name result = Inr r"
  by (auto simp: conflict_of_def Let_def)

lemma conflict_of_falsy:
  "\<not> truthy (dict_get patient test_name PyNone) \<Longrightarrow> conflict_of patient test_name result = Inr None"
  by (simp add: conflict_of_def)

lemma conflict_of_Some:
  "conflict_of patient test_name result = Inr (Some c) \<longleftrightarrow>
     truthy (dict_get patient test_name PyNone) \<and>
     (\<exists>v. map_of result ''value'' = Some v \<and> py_ne (dict_get patient test_name PyNone) v \<and>
          c = \<lparr>form_value = dict_get patient test_name PyNone, pdf_value = v,
               unit = dict_get result ''unit'' (PyStr [])\<rparr>)"
  by (auto simp: conflict_of_def Let_def split: option.splits)

lemma detect_conflicts_returns:
  "list_all (\<lambda>(test_name, result). map_of result ''value'' \<noteq> None) items \<Longrightarrow>
   \<exists>found. detect_conflicts patient items acc = Inr found"
proof (induction items arbitrary: acc)
  case Nil
  then show ?case by simp
next
  case (Cons item items)
  obtain test_name result where item: "item = (test_name, result)" by (cases item)
  with Cons.prems have "map_of result ''value'' \<noteq> None" by simp
  then obtain r where r: "conflict_of patient test_name result = Inr r"
    using conflict_of_total by blast
  from Cons.prems have rest: "list_all (\<lambda>(test_name, result). map_of result ''value'' \<noteq> None) items"
    by simp
  show ?case using item r Cons.IH [OF rest]
    by (cases r) simp_all
qed

lemma detect_conflicts_lookup:
  "distinct (map fst items) \<Longrightarrow> detect_conflicts patient items acc = Inr found \<Longrightarrow>
   map_of found f =
     (case map_of items f of
        None \<Rightarrow> map_of acc f
      | Some result \<Rightarrow>
          (case conflict_of patient f result of
             Inr (Some c) \<Rightarrow> Some c
           | _ \<Rightarrow> map_of acc f))"
proof (induction items arbitrary: acc)
  case Nil
  then show ?case by simp
next
  case (Cons item items)
  obtain test_name result where item: "item = (test_name, result)" by (cases item)
  from Cons.prems(1) item have d: "distinct (map fst items)" and n: "map_of items test_name = None"
    by (auto simp: map_of_eq_None_iff)
  show ?case
  proof (cases "conflict_of patient test_name result")
    case (Inl e)
    with Cons.prems(2) item show ?thesis by simp
  next
    case (Inr r)
    show ?thesis
    proof (cases r)
      case None
      with Inr item Cons.prems(2) have "detect_conflicts patient items acc = Inr found" by simp
      from Cons.IH [OF d this] show ?thesis using item Inr None n
        by (auto split: option.splits)
    next
      case (Some c)
      with Inr item Cons.prems(2)
      have "detect_conflicts patient items (AList.update test_name c acc) = Inr found" by simp
      from Cons.IH [OF d this] show ?thesis using item Inr Some n
        by (auto simp: update_conv' split: option.splits sum.splits)
    qed
  qed
qed

lemma detect_conflicts_distinct:
  "detect_conflicts patient items acc = Inr found \<Longrightarrow> distinct (map fst acc) \<Longrightarrow>
   distinct (map fst found)"
proof (induction items arbitrary: acc)
  case Nil
  then show ?case by simp
next
  case (Cons item items)
  obtain test_name result where item: "item = (test_name, result)" by (cases item)
  show ?case
  proof (cases "conflict_of patient test_name result")
    case (Inl e)
    with Cons.prems(1) item show ?thesis by simp
  next
    case (Inr r)
    show ?thesis
    proof (cases r)
      case None
      with Inr item Cons.prems(1) have "detect_conflicts patient items acc = Inr found" by simp
      from Cons.IH [OF this Cons.prems(2)] show ?thesis .
    next
      case (Some c)
      with Inr item Cons.prems(1)
      have "detect_conflicts patient items (AList.update test_name c acc) = Inr found" by simp
      from Cons.IH [OF this distinct_update [OF Cons.prems(2)]] show ?thesis .
    qed
  qed
qed

text \<open>Every stored conflict comes from an item whose loop body produced it.\<close>

lemma detect_conflicts_origin:
  "detect_conflicts patient items acc = Inr found \<Longrightarrow> map_of found f = Some c \<Longrightarrow>
   map_of acc f = Some c \<or> (\<exists>result. (f, result) \<in> set items \<and> conflict_of patient f result = Inr (Some c))"
proof (induction items arbitrary: acc)
  case Nil
  then show ?case by simp
next
  case (Cons item items)
  obtain test_name result where item: "item = (test_name, result)" by (cases item)
  show ?case
  proof (cases "conflict_of patient test_name result")
    case (Inl e)
    with Cons.prems(1) item show ?thesis by simp
  next
    case (Inr r)
    show ?thesis
    proof (cases r)
      case None
      with Inr item Cons.prems(1) have "detect_conflicts patient items acc = Inr found" by simp
      from Cons.IH [OF this Cons.prems(2)] show ?thesis by auto
    next
      case (Some c')
      with Inr item Cons.prems(1)
      have "detect_conflicts patient items (AList.update test_name c' acc) = Inr found" by simp
      from Cons.IH [OF this Cons.prems(2)] show ?thesis using item Inr Some
        by (auto simp: update_conv' split: if_splits)
    qed
  qed
qed

lemma filter_key_unique:
  "distinct (map fst d) \<Longrightarrow> map_of d k = Some v \<Longrightarrow> filter (\<lambda>(k', v'). k' = k) d = [(k, v)]"
proof (induction d)
  case Nil
  then show ?case by simp
next
  case (Cons p d)
  obtain k' v' where p: "p = (k', v')" by (cases p)
  show ?case
  proof (cases "k' = k")
    case True
    with Cons.prems p have "v' = v" and "k \<notin> fst ` set d" by auto
    then have "filter (\<lambda>(k', v'). k' = k) d = []"
      by (force simp: filter_empty_conv)
    with True p \<open>v' = v\<close> show ?thesis by simp
  next
    case False
    with Cons p show ?thesis by simp
  qed
qed

lemma process_pdf_merge:
  assumes "extract_text processor file = Inr text"
    and "parse_lab_results processor text = Inr document"
    and "detect_conflicts (patient_data st) document [] = Inr found"
  shows "process_pdf processor (Some file) st =
           st\<lparr>pdf_text := Some text, lab_data := document, conflicts := found\<rparr>"
  using assms by (simp add: process_pdf_def Let_def)

lemma process_pdf_completes:
  assumes "extract_text processor file = Inr text"
    and "parse_lab_results processor text = Inr document"
    and "is_document document"
  obtains found where "detect_conflicts (patient_data st) document [] = Inr found"
    and "process_pdf processor (Some file) st =
           st\<lparr>pdf_text := Some text, lab_data := document, conflicts := found\<rparr>"
proof -
  from assms(3) obtain found where f: "detect_conflicts (patient_data st) document [] = Inr found"
    using detect_conflicts_returns unfolding is_document_def by blast
  from process_pdf_merge [OF assms(1,2) f] f that show thesis by blast
qed

lemma detect_conflicts_none:
  "\<forall>(test_name, result) \<in> set items. conflict_of patient test_name result = Inr None \<Longrightarrow>
   detect_conflicts patient items acc = Inr acc"
  by (induction items arbitrary: acc) auto

lemma process_pdf_conflict_form_value:
  assumes "extract_text processor file = Inr text"
    and "parse_lab_results processor text = Inr document"
    and "is_document document"
    and "map_of (conflicts (process_pdf processor (Some file) st)) f = Some c"
  shows "map_of (patient_data (process_pdf processor (Some file) st)) f = Some (form_value c)"
proof -
  obtain found where d: "detect_conflicts (patient_data st) document [] = Inr found"
    and p: "process_pdf processor (Some file) st =
              st\<lparr>pdf_text := Some text, lab_data := document, conflicts := found\<rparr>"
    using process_pdf_completes [OF assms(1-3)] by blast
  from assms(4) p have "map_of found f = Some c" by simp
  from detect_conflicts_origin [OF d this] obtain result where
    c: "conflict_of (patient_data st) f result = Inr (Some c)"
    by auto
  then have t: "truthy (dict_get (patient_data st) f PyNone)"
    and v: "form_value c = dict_get (patient_data st) f PyNone"
    by (auto simp: conflict_of_Some)
  from t have "map_of (patient_data st) f \<noteq> None"
    by (auto simp: dict_get_def split: option.splits)
  with v have "map_of (patient_data st) f = Some (form_value c)"
    by (auto simp: dict_get_def)
  with p show ?thesis by simp
qed

lemma render_conflict_chip_field:
  "map_of (patient_data st) f = Some (form_value c) \<Longrightarrow>
   map_of (patient_data (render_conflict_chip resolution f c st)) f =
     Some (if resolution = ''Use PDF value'' then pdf_value c else form_value c)"
  by (simp add: render_conflict_chip_def update_conv')






lemmas ex_defs = process_pdf_def reads_def form_82_def report_94_def form_empty_def conflict_94_def
  form_hypos_def report_hypos_def conflict_of_def dict_get_def py_ne_def py_eq_def float_eq_def
  render_conflict_chip_def Let_def

lemmas run_defs = ex_defs resolved_94_def merged_94_def report_101_def lab_results_section_def
  show_conflicts_def selected_def

section \<open>Traffic-light classification: claims\<close>

text \<open>
  C2, as the spec states it: a metric without a definition in the catalog classifies as
  \<open>'unknown'\<close>. The code returns \<open>'amber'\<close> there ("Default for unknown metrics").
\<close>

theorem unknown_metric_counterexample:
  "get_traffic_light_status ''ketones'' (PyFloat (Finite 1)) example_rules \<noteq> Inr ''unknown''"
  by (simp add: get_traffic_light_status_def traffic_table_def example_rules_def)

text \<open>
  C2, amended: for a metric name that is not a key of \<open>rules.get('traffic', {})\<close>,
  \<open>get_traffic_light_status\<close> returns \<open>'amber'\<close> for every value, numeric or not, and
  raises nothing.
\<close>

theorem unknown_metric_is_amber:
  "map_of (traffic_table rules) metric_name = None \<Longrightarrow>
   get_traffic_light_status metric_name val rules = Inr ''amber''"
  by (simp add: get_traffic_light_status_def)

text \<open>The amended C2 at a metric the example catalog lacks, with a string as value.\<close>

theorem unknown_metric_is_amber_witness:
  "map_of (traffic_table example_rules) ''ketones'' = None \<and>
   get_traffic_light_status ''ketones'' (PyStr ''high'') example_rules = Inr ''amber''"
proof -
  have h: "map_of (traffic_table example_rules) ''ketones'' = None"
    by (simp add: traffic_table_def example_rules_def)
  from unknown_metric_is_amber [OF h] h show ?thesis by simp
qed

text \<open>
  C3, as the spec states it: the classification never raises and answers \<open>'unknown'\<close>
  for NaN and for a value that is not a number. With the catalog of the spec's example,
  a string value raises \<open>TypeError\<close> in the first comparison, and NaN, for which both
  comparisons are false, is \<open>'red'\<close>.
\<close>

theorem classify_not_total_counterexample:
  "get_traffic_light_status ''hba1c'' (PyStr ''high'') example_rules = Inl TypeError \<and>
   get_traffic_light_status ''hba1c'' (PyFloat NaN) example_rules = Inr ''red''"
  by (simp add: get_traffic_light_status_def traffic_table_def example_rules_def hba1c_thresholds_def
     dict_get_def py_le_def)

text \<open>
  C3, amended: over a catalog whose bounds are numbers, \<open>get_traffic_light_status\<close>
  returns \<open>'green'\<close>, \<open>'amber'\<close> or \<open>'red'\<close> and raises nothing for every metric name
  and every numeric value (bool, int, float, the infinities and NaN included); NaN is
  \<open>'red'\<close> for a metric of the catalog; a value that is not a number (\<open>None\<close>, a
  string) raises \<open>TypeError\<close> for a metric of the catalog. \<open>'unknown'\<close> is never
  returned.
\<close>

theorem classify_numeric_total:
  assumes "numeric_catalog rules"
  shows "(as_number val \<noteq> None \<longrightarrow>
            get_traffic_light_status metric_name val rules \<in> {Inr ''green'', Inr ''amber'', Inr ''red''})
       \<and> (val = PyFloat NaN \<longrightarrow> map_of (traffic_table rules) metric_name \<noteq> None \<longrightarrow>
            get_traffic_light_status metric_name val rules = Inr ''red'')
       \<and> (as_number val = None \<longrightarrow> map_of (traffic_table rules) metric_name \<noteq> None \<longrightarrow>
            get_traffic_light_status metric_name val rules = Inl TypeError)"
proof (cases "map_of (traffic_table rules) metric_name")
  case None
  then show ?thesis by (simp add: get_traffic_light_status_def)
next
  case (Some th)
  from numeric_catalogD [OF assms Some] obtain g a where
    g: "as_number (dict_get th ''green_max'' (PyFloat PosInf)) = Some g" and
    a: "as_number (dict_get th ''amber_max'' (PyFloat PosInf)) = Some a"
    by (auto simp: numeric_bounds_def)
  show ?thesis
  proof (cases "as_number val")
    case None
    with Some g show ?thesis
      by (auto simp: get_traffic_light_status_def py_le_not_number)
  next
    case (Some x)
    with \<open>map_of (traffic_table rules) metric_name = Some th\<close> g a show ?thesis
      by (auto simp: get_traffic_light_status_def py_le_numbers)
  qed
qed

text \<open>
  The amended C3 at the catalog of the spec's example: NaN is a number and is red, a
  string raises.
\<close>

theorem classify_numeric_total_witness:
  "numeric_catalog example_rules
   \<and> as_number (PyFloat NaN) \<noteq> None
   \<and> map_of (traffic_table example_rules) ''hba1c'' \<noteq> None
   \<and> get_traffic_light_status ''hba1c'' (PyFloat NaN) example_rules = Inr ''red''
   \<and> as_number (PyStr ''high'') = None
   \<and> get_traffic_light_status ''hba1c'' (PyStr ''high'') example_rules = Inl TypeError"
proof -
  have h: "numeric_catalog example_rules"
    by (simp add: numeric_catalog_def numeric_bounds_def traffic_table_def example_rules_def
        hba1c_thresholds_def dict_get_def)
  have m: "map_of (traffic_table example_rules) ''hba1c'' \<noteq> None"
    by (simp add: traffic_table_def example_rules_def)
  from classify_numeric_total [OF h, of "PyFloat NaN" "''hba1c''"]
    classify_numeric_total [OF h, of "PyStr ''high''" "''hba1c''"] h m
  show ?thesis by simp
qed

text \<open>
  C4: for a metric of the catalog with numeric \<open>green_max\<close> and \<open>amber_max\<close> and a
  numeric value \<open>v\<close>: \<open>v \<le> green_max\<close> is green, \<open>green_max < v \<le> amber_max\<close> is amber,
  and \<open>v > amber_max\<close> is red. The third case is stated under the invariant
  \<open>green_max \<le> amber_max\<close> of a metric definition, without which the first and the
  third case overlap. The code never reads \<open>direction\<close>, so the theorem holds whatever
  it is.
\<close>

theorem classify_by_thresholds:
  assumes "map_of (traffic_table rules) metric_name = Some thresholds"
    and "map_of thresholds ''green_max'' = Some gm" and "as_number gm = Some green_max"
    and "map_of thresholds ''amber_max'' = Some am" and "as_number am = Some amber_max"
    and "as_number val = Some v"
  shows "(float_le v green_max \<longrightarrow>
            get_traffic_light_status metric_name val rules = Inr ''green'')
       \<and> (float_lt green_max v \<and> float_le v amber_max \<longrightarrow>
            get_traffic_light_status metric_name val rules = Inr ''amber'')
       \<and> (float_le green_max amber_max \<longrightarrow> float_lt amber_max v \<longrightarrow>
            get_traffic_light_status metric_name val rules = Inr ''red'')"
proof -
  have g: "py_le val (dict_get thresholds ''green_max'' (PyFloat PosInf)) = Inr (float_le v green_max)"
    using assms by (simp add: dict_get_def py_le_numbers)
  have a: "py_le val (dict_get thresholds ''amber_max'' (PyFloat PosInf)) = Inr (float_le v amber_max)"
    using assms by (simp add: dict_get_def py_le_numbers)
  have r: "float_le green_max amber_max \<Longrightarrow> float_lt amber_max v \<Longrightarrow> \<not> float_le v green_max"
    by (rule float_le_trans_strict)
  show ?thesis using assms(1) g a r
    by (auto simp: get_traffic_light_status_def float_lt_def)
qed

text \<open>
  C4 at the values of the spec: with \<open>green_max = 7.0\<close> and \<open>amber_max = 9.0\<close>, 6.9 and
  7.0 are green, 8.5 is amber and 9.1 is red.
\<close>

theorem classify_by_thresholds_witness:
  "float_le (Finite 7) (Finite 9)
   \<and> get_traffic_light_status ''hba1c'' (PyFloat (Finite (69 / 10))) example_rules = Inr ''green''
   \<and> get_traffic_light_status ''hba1c'' (PyFloat (Finite 7)) example_rules = Inr ''green''
   \<and> get_traffic_light_status ''hba1c'' (PyFloat (Finite (17 / 2))) example_rules = Inr ''amber''
   \<and> get_traffic_light_status ''hba1c'' (PyFloat (Finite (91 / 10))) example_rules = Inr ''red''"
proof -
  have h1: "map_of (traffic_table example_rules) ''hba1c'' = Some hba1c_thresholds"
    by (simp add: traffic_table_def example_rules_def)
  have h2: "map_of hba1c_thresholds ''green_max'' = Some (PyFloat (Finite 7))"
    by (simp add: hba1c_thresholds_def)
  have h3: "as_number (PyFloat (Finite 7)) = Some (Finite 7)" by simp
  have h4: "map_of hba1c_thresholds ''amber_max'' = Some (PyFloat (Finite 9))"
    by (simp add: hba1c_thresholds_def)
  have h5: "as_number (PyFloat (Finite 9)) = Some (Finite 9)" by simp
  have v: "as_number (PyFloat (Finite q)) = Some (Finite q)" for q by simp
  note t = classify_by_thresholds [OF h1 h2 h3 h4 h5 v]
  from t [of "69 / 10"] t [of 7] t [of "17 / 2"] t [of "91 / 10"]
  show ?thesis by (simp add: float_lt_def)
qed

text \<open>
  C9, as the spec states it: loading fails with \<open>ConfigError\<close> when the definition is
  malformed, for instance when \<open>green_max > amber_max\<close>. A file that decodes to such a
  document is returned as it is, and the classification then runs on it: 8 is above
  \<open>amber_max = 7\<close> and green.
\<close>

theorem load_rules_unchecked_counterexample:
  "dict_get (dict_get (traffic_table inverted_rules) ''hba1c'' []) ''green_max'' PyNone = PyFloat (Finite 9)
   \<and> dict_get (dict_get (traffic_table inverted_rules) ''hba1c'' []) ''amber_max'' PyNone = PyFloat (Finite 7)
   \<and> \<not> float_le (Finite 9) (Finite 7)
   \<and> load_rules (Inr ''rules.json'') (decodes_to inverted_rules) = Inr inverted_rules
   \<and> get_traffic_light_status ''hba1c'' (PyFloat (Finite 8)) inverted_rules = Inr ''green''"
  by (simp add: load_rules_def decodes_to_def inverted_rules_def traffic_table_def dict_get_def
      get_traffic_light_status_def py_le_def)

text \<open>
  C9, amended: \<open>load_rules\<close> returns whatever the JSON decoder makes of the file, with
  no check of threshold keys, of the bounds being numbers or of their order; it fails only
  when opening the file or decoding it fails, with that error, and so never with
  \<open>ConfigError\<close>, which neither raises.
\<close>

theorem load_rules_returns_decoded:
  "(open_file = Inr text \<longrightarrow> load_rules open_file json_load = json_load text)
   \<and> (load_rules open_file json_load = Inl e \<longrightarrow>
        open_file = Inl e \<or> (\<exists>text. open_file = Inr text \<and> json_load text = Inl e))
   \<and> (open_file \<noteq> Inl ConfigError \<longrightarrow> (\<forall>text. json_load text \<noteq> Inl ConfigError) \<longrightarrow>
        load_rules open_file json_load \<noteq> Inl ConfigError)"
  by (auto simp: load_rules_def split: sum.splits)

text \<open>
  The amended C9 at a file that decodes to the example catalog, and at a file that
  cannot be opened.
\<close>

theorem load_rules_returns_decoded_witness:
  "load_rules (Inr ''rules.json'') (decodes_to example_rules) = Inr example_rules
   \<and> load_rules (Inl OSError) (decodes_to example_rules) = Inl OSError
   \<and> (Inr ''rules.json'' :: error + string) \<noteq> Inl ConfigError
   \<and> (\<forall>text. decodes_to example_rules text \<noteq> Inl ConfigError)
   \<and> load_rules (Inr ''rules.json'') (decodes_to example_rules) \<noteq> Inl ConfigError"
proof -
  have d: "decodes_to example_rules ''rules.json'' = Inr example_rules"
    by (simp add: decodes_to_def)
  have n: "\<forall>text. decodes_to example_rules text \<noteq> Inl ConfigError"
    by (simp add: decodes_to_def)
  have f: "load_rules (Inl OSError) (decodes_to example_rules) = Inl OSError"
    by (simp add: load_rules_def)
  from load_rules_returns_decoded
         [of "Inr ''rules.json''" "''rules.json''" "decodes_to example_rules" OSError]
    load_rules_returns_decoded
         [of "Inl OSError" "''rules.json''" "decodes_to example_rules" OSError] d n f
  show ?thesis by simp
qed

section \<open>Reconciliation: claims\<close>

text \<open>
  C1, as the spec states it: a field present in both sources with differing values gets
  a conflict, and the merged snapshot holds neither value while the conflict is pending.
  In the spec's scenario the conflict is recorded but \<open>patient_data\<close> still holds the
  form value 8.2; and a form value of 0 against a document value of 3 gives no conflict
  at all.
\<close>

theorem merge_keeps_form_value_counterexample:
  "map_of (conflicts (process_pdf (reads ''HbA1c 9.4 %'' report_94) (Some ()) form_82)) ''hba1c''
     = Some conflict_94
   \<and> map_of (patient_data (process_pdf (reads ''HbA1c 9.4 %'' report_94) (Some ()) form_82)) ''hba1c''
     = Some (form_value conflict_94)
   \<and> py_ne (PyInt 0) (PyInt 3)
   \<and> conflicts (process_pdf (reads ''Hypos 3'' (report_hypos 3)) (Some ()) (form_hypos 0)) = []"
  by (simp add: ex_defs)

text \<open>
  C1, amended: for every field present in both sources whose form value is truthy and
  differs (\<open>!=\<close>) from the document value, after \<open>process_pdf\<close> exactly one conflict
  is stored under that field's name, holding the form value, the document value and the
  unit (\<open>''\<close> when the result has none); \<open>patient_data\<close> is untouched and still
  holds the form value.
\<close>

theorem merge_conflict_on_truthy_difference:
  assumes "extract_text processor file = Inr text"
    and "parse_lab_results processor text = Inr document"
    and "is_document document"
    and "map_of (patient_data st) f = Some fv"
    and "map_of document f = Some result" and "map_of result ''value'' = Some dv"
    and "truthy fv" and "py_ne fv dv"
  shows "filter (\<lambda>(k, c). k = f) (conflicts (process_pdf processor (Some file) st)) =
           [(f, \<lparr>form_value = fv, pdf_value = dv, unit = dict_get result ''unit'' (PyStr [])\<rparr>)]
       \<and> map_of (patient_data (process_pdf processor (Some file) st)) f = Some fv"
proof -
  obtain found where d: "detect_conflicts (patient_data st) document [] = Inr found"
    and p: "process_pdf processor (Some file) st =
              st\<lparr>pdf_text := Some text, lab_data := document, conflicts := found\<rparr>"
    using process_pdf_completes [OF assms(1-3)] by blast
  have fv: "dict_get (patient_data st) f PyNone = fv"
    using assms(4) by (simp add: dict_get_def)
  have "conflict_of (patient_data st) f result =
          Inr (Some \<lparr>form_value = fv, pdf_value = dv, unit = dict_get result ''unit'' (PyStr [])\<rparr>)"
    using assms(6-8) fv by (simp add: conflict_of_Some)
  with assms(3,5) detect_conflicts_lookup [OF _ d, of f]
  have "map_of found f =
          Some \<lparr>form_value = fv, pdf_value = dv, unit = dict_get result ''unit'' (PyStr [])\<rparr>"
    by (simp add: is_document_def)
  moreover have "distinct (map fst found)"
    using detect_conflicts_distinct [OF d] by simp
  ultimately show ?thesis using p assms(4)
    by (simp add: filter_key_unique)
qed

text \<open>The amended C1 at the scenario.\<close>

theorem merge_conflict_on_truthy_difference_witness:
  "is_document report_94 \<and> truthy (PyFloat (Finite (41 / 5)))
   \<and> py_ne (PyFloat (Finite (41 / 5))) (PyFloat (Finite (47 / 5)))
   \<and> filter (\<lambda>(k, c). k = ''hba1c'')
        (conflicts (process_pdf (reads ''HbA1c 9.4 %'' report_94) (Some ()) form_82)) =
       [(''hba1c'', conflict_94)]
   \<and> map_of (patient_data (process_pdf (reads ''HbA1c 9.4 %'' report_94) (Some ()) form_82)) ''hba1c''
       = Some (PyFloat (Finite (41 / 5)))"
proof -
  have h1: "extract_text (reads ''HbA1c 9.4 %'' report_94) () = Inr ''HbA1c 9.4 %''"
    by (simp add: reads_def)
  have h2: "parse_lab_results (reads ''HbA1c 9.4 %'' report_94) ''HbA1c 9.4 %'' = Inr report_94"
    by (simp add: reads_def)
  have h3: "is_document report_94"
    by (simp add: is_document_def report_94_def)
  have h4: "map_of (patient_data form_82) ''hba1c'' = Some (PyFloat (Finite (41 / 5)))"
    by (simp add: form_82_def)
  have h5: "map_of report_94 ''hba1c'' =
              Some [(''value'', PyFloat (Finite (47 / 5))), (''unit'', PyStr ''%'')]"
    by (simp add: report_94_def)
  have h6: "map_of [(''value'', PyFloat (Finite (47 / 5))), (''unit'', PyStr ''%'')] ''value'' =
              Some (PyFloat (Finite (47 / 5)))"
    by simp
  have h7: "truthy (PyFloat (Finite (41 / 5)))" by simp
  have h8: "py_ne (PyFloat (Finite (41 / 5))) (PyFloat (Finite (47 / 5)))"
    by (simp add: py_ne_def py_eq_def float_eq_def)
  from merge_conflict_on_truthy_difference [OF h1 h2 h3 h4 h5 h6 h7 h8] h3 h7 h8 show ?thesis
    by (simp add: dict_get_def conflict_94_def)
qed

text \<open>
  C5, as the spec states it: a field that only the document has is adopted into the
  merged snapshot. With an empty form and the report of the scenario, \<open>patient_data\<close>
  has no HbA1c after \<open>process_pdf\<close>.
\<close>

theorem merge_adopts_nothing_counterexample:
  "map_of report_94 ''hba1c'' \<noteq> None
   \<and> map_of (patient_data form_empty) ''hba1c'' = None
   \<and> map_of (patient_data (process_pdf (reads ''HbA1c 9.4 %'' report_94) (Some ()) form_empty)) ''hba1c'' = None"
  by (simp add: ex_defs)

text \<open>
  C5, amended: for every field present in the document but absent from the form,
  \<open>process_pdf\<close> records no conflict and keeps the document's result in \<open>lab_data\<close>;
  \<open>patient_data\<close> is not changed and still lacks the field.
\<close>

theorem merge_document_only_field:
  assumes "extract_text processor file = Inr text"
    and "parse_lab_results processor text = Inr document"
    and "is_document document"
    and "map_of (patient_data st) f = None"
    and "map_of document f = Some result"
  shows "map_of (conflicts (process_pdf processor (Some file) st)) f = None
       \<and> map_of (lab_data (process_pdf processor (Some file) st)) f = Some result
       \<and> map_of (patient_data (process_pdf processor (Some file) st)) f = None"
proof -
  obtain found where d: "detect_conflicts (patient_data st) document [] = Inr found"
    and p: "process_pdf processor (Some file) st =
              st\<lparr>pdf_text := Some text, lab_data := document, conflicts := found\<rparr>"
    using process_pdf_completes [OF assms(1-3)] by blast
  have "\<not> truthy (dict_get (patient_data st) f PyNone)"
    using assms(4) by (simp add: dict_get_def)
  then have "conflict_of (patient_data st) f result = Inr None"
    by (rule conflict_of_falsy)
  with assms(3,5) detect_conflicts_lookup [OF _ d, of f]
  have "map_of found f = None"
    by (simp add: is_document_def)
  with p assms(4,5) show ?thesis by simp
qed

text \<open>The amended C5 at the empty form and the report of the scenario.\<close>

theorem merge_document_only_field_witness:
  "is_document report_94
   \<and> map_of (patient_data form_empty) ''hba1c'' = None
   \<and> map_of (conflicts (process_pdf (reads ''HbA1c 9.4 %'' report_94) (Some ()) form_empty)) ''hba1c'' = None
   \<and> map_of (lab_data (process_pdf (reads ''HbA1c 9.4 %'' report_94) (Some ()) form_empty)) ''hba1c''
       = Some [(''value'', PyFloat (Finite (47 / 5))), (''unit'', PyStr ''%'')]
   \<and> map_of (patient_data (process_pdf (reads ''HbA1c 9.4 %'' report_94) (Some ()) form_empty)) ''hba1c'' = None"
proof -
  have h1: "extract_text (reads ''HbA1c 9.4 %'' report_94) () = Inr ''HbA1c 9.4 %''"
    by (simp add: reads_def)
  have h2: "parse_lab_results (reads ''HbA1c 9.4 %'' report_94) ''HbA1c 9.4 %'' = Inr report_94"
    by (simp add: reads_def)
  have h3: "is_document report_94"
    by (simp add: is_document_def report_94_def)
  have h4: "map_of (patient_data form_empty) ''hba1c'' = None"
    by (simp add: form_empty_def)
  have h5: "map_of report_94 ''hba1c'' =
              Some [(''value'', PyFloat (Finite (47 / 5))), (''unit'', PyStr ''%'')]"
    by (simp add: report_94_def)
  from merge_document_only_field [OF h1 h2 h3 h4 h5] h3 h4 show ?thesis by simp
qed

text \<open>
  C8: if the form value equals (\<open>==\<close>) the document value for every field present
  in both sources, \<open>process_pdf\<close> leaves no conflict and the snapshot is the form
  snapshot.
\<close>

theorem merge_agreement:
  assumes "extract_text processor file = Inr text"
    and "parse_lab_results processor text = Inr document"
    and "is_document document"
    and "\<forall>(f, result) \<in> set document. \<forall>fv dv.
           map_of (patient_data st) f = Some fv \<longrightarrow> map_of result ''value'' = Some dv \<longrightarrow> py_eq fv dv"
  shows "conflicts (process_pdf processor (Some file) st) = []
       \<and> patient_data (process_pdf processor (Some file) st) = patient_data st"
proof -
  have "conflict_of (patient_data st) f result = Inr None" if "(f, result) \<in> set document" for f result
  proof -
    from assms(3) that obtain dv where dv: "map_of result ''value'' = Some dv"
      by (auto simp: is_document_def list_all_iff)
    show ?thesis
    proof (cases "map_of (patient_data st) f")
      case None
      then show ?thesis by (simp add: conflict_of_def dict_get_def)
    next
      case (Some fv)
      with assms(4) that dv have "py_eq fv dv" by blast
      with Some dv show ?thesis by (simp add: conflict_of_def dict_get_def py_ne_def)
    qed
  qed
  then have "detect_conflicts (patient_data st) document [] = Inr []"
    by (intro detect_conflicts_none) auto
  from process_pdf_merge [OF assms(1,2) this] show ?thesis by simp
qed

text \<open>
  C8 at the form of the scenario and a report that agrees on HbA1c and has a field the
  form lacks.
\<close>

theorem merge_agreement_witness:
  "is_document report_82
   \<and> py_eq (PyFloat (Finite (41 / 5))) (PyFloat (Finite (41 / 5)))
   \<and> conflicts (process_pdf (reads ''HbA1c 8.2 %'' report_82) (Some ()) form_82) = []
   \<and> patient_data (process_pdf (reads ''HbA1c 8.2 %'' report_82) (Some ()) form_82) = patient_data form_82"
proof -
  have h1: "extract_text (reads ''HbA1c 8.2 %'' report_82) () = Inr ''HbA1c 8.2 %''"
    by (simp add: reads_def)
  have h2: "parse_lab_results (reads ''HbA1c 8.2 %'' report_82) ''HbA1c 8.2 %'' = Inr report_82"
    by (simp add: reads_def)
  have h3: "is_document report_82"
    by (simp add: is_document_def report_82_def)
  have e: "py_eq (PyFloat (Finite (41 / 5))) (PyFloat (Finite (41 / 5)))"
    by (simp add: py_eq_def float_eq_def)
  have h4: "\<forall>(f, result) \<in> set report_82. \<forall>fv dv.
           map_of (patient_data form_82) f = Some fv \<longrightarrow> map_of result ''value'' = Some dv \<longrightarrow> py_eq fv dv"
    using e by (simp add: report_82_def form_82_def)
  from merge_agreement [OF h1 h2 h3 h4] h3 e show ?thesis by simp
qed

text \<open>
  C10: a field whose form value is falsy (\<open>0\<close>, \<open>0.0\<close>, \<open>''\<close>, \<open>False\<close>, or
  \<open>None\<close>, which is also what \<open>get\<close> gives for an absent field) has no conflict
  after \<open>process_pdf\<close>, whatever the document says; a field has a conflict only if its
  form value is truthy and differs from the document value.
\<close>

theorem falsy_form_value_no_conflict:
  assumes "extract_text processor file = Inr text"
    and "parse_lab_results processor text = Inr document"
    and "is_document document"
  shows "(dict_get (patient_data st) f PyNone \<in>
            {PyInt 0, PyFloat (Finite 0), PyStr [], PyBool False, PyNone} \<longrightarrow>
          map_of (conflicts (process_pdf processor (Some file) st)) f = None)
       \<and> (map_of (conflicts (process_pdf processor (Some file) st)) f \<noteq> None \<longrightarrow>
          truthy (dict_get (patient_data st) f PyNone) \<and>
          (\<exists>result dv. map_of document f = Some result \<and> map_of result ''value'' = Some dv \<and>
             py_ne (dict_get (patient_data st) f PyNone) dv))"
proof -
  obtain found where d: "detect_conflicts (patient_data st) document [] = Inr found"
    and p: "process_pdf processor (Some file) st =
              st\<lparr>pdf_text := Some text, lab_data := document, conflicts := found\<rparr>"
    using process_pdf_completes [OF assms] by blast
  have origin: "truthy (dict_get (patient_data st) f PyNone) \<and>
          (\<exists>result dv. map_of document f = Some result \<and> map_of result ''value'' = Some dv \<and>
             py_ne (dict_get (patient_data st) f PyNone) dv)" if "map_of found f = Some c" for c
  proof -
    from detect_conflicts_origin [OF d that] obtain result where
      r: "(f, result) \<in> set document" and c: "conflict_of (patient_data st) f result = Inr (Some c)"
      by auto
    from r assms(3) have "map_of document f = Some result"
      by (simp add: is_document_def)
    with c show ?thesis by (auto simp: conflict_of_Some)
  qed
  have gated: "map_of found f \<noteq> None \<longrightarrow>
          truthy (dict_get (patient_data st) f PyNone) \<and>
          (\<exists>result dv. map_of document f = Some result \<and> map_of result ''value'' = Some dv \<and>
             py_ne (dict_get (patient_data st) f PyNone) dv)"
    using origin by blast
  have "\<not> truthy (dict_get (patient_data st) f PyNone)"
    if "dict_get (patient_data st) f PyNone \<in>
          {PyInt 0, PyFloat (Finite 0), PyStr [], PyBool False, PyNone}"
    using that by auto
  with gated have falsy: "dict_get (patient_data st) f PyNone \<in>
            {PyInt 0, PyFloat (Finite 0), PyStr [], PyBool False, PyNone} \<longrightarrow>
          map_of found f = None"
    by blast
  have c: "conflicts (process_pdf processor (Some file) st) = found"
    by (simp add: p)
  show ?thesis unfolding c using falsy gated by (rule conjI)
qed

text \<open>C10 at a form value of 0 against a document value of 3, and at the scenario.\<close>

theorem falsy_form_value_no_conflict_witness:
  "is_document (report_hypos 3)
   \<and> dict_get (patient_data (form_hypos 0)) ''hypo_episodes'' PyNone \<in>
            {PyInt 0, PyFloat (Finite 0), PyStr [], PyBool False, PyNone}
   \<and> map_of (conflicts (process_pdf (reads ''Hypos 3'' (report_hypos 3)) (Some ()) (form_hypos 0)))
        ''hypo_episodes'' = None
   \<and> map_of (conflicts (process_pdf (reads ''HbA1c 9.4 %'' report_94) (Some ()) form_82)) ''hba1c'' \<noteq> None
   \<and> truthy (dict_get (patient_data form_82) ''hba1c'' PyNone)"
proof -
  have h1: "extract_text (reads t lab) () = Inr t" for t lab
    by (simp add: reads_def)
  have h2: "parse_lab_results (reads t lab) t = Inr lab" for t lab
    by (simp add: reads_def)
  have h3: "is_document (report_hypos 3)"
    by (simp add: is_document_def report_hypos_def)
  have h3': "is_document report_94"
    by (simp add: is_document_def report_94_def)
  have f: "dict_get (patient_data (form_hypos 0)) ''hypo_episodes'' PyNone \<in>
            {PyInt 0, PyFloat (Finite 0), PyStr [], PyBool False, PyNone}"
    by (simp add: form_hypos_def dict_get_def)
  have c: "map_of (conflicts (process_pdf (reads ''HbA1c 9.4 %'' report_94) (Some ()) form_82)) ''hba1c'' \<noteq> None"
    by (simp add: ex_defs)
  from falsy_form_value_no_conflict [OF h1 [of "''Hypos 3''" "report_hypos 3"] h2 h3, of "form_hypos 0" "''hypo_episodes''"]
    falsy_form_value_no_conflict [OF h1 [of "''HbA1c 9.4 %''" report_94] h2 h3', of form_82 "''hba1c''"] h3 f c
  show ?thesis by blast
qed




text \<open>
  C7: resolving with either choice is idempotent, updates exactly one field, to the
  chosen value, and adds no conflict. \<open>render_conflict_chip\<close> is idempotent, leaves the
  conflicts and every other field as they are, and on the session a merge leaves each
  choice gives the field the chosen value.
\<close>

lemma render_conflict_chip_idempotent:
  "render_conflict_chip resolution f c (render_conflict_chip resolution f c st) =
     render_conflict_chip resolution f c st"
  by (simp add: render_conflict_chip_def)

lemma render_conflict_chip_frame:
  "conflicts (render_conflict_chip resolution f c st) = conflicts st
   \<and> lab_data (render_conflict_chip resolution f c st) = lab_data st
   \<and> (\<forall>k. k \<noteq> f \<longrightarrow> map_of (patient_data (render_conflict_chip resolution f c st)) k =
                       map_of (patient_data st) k)"
  by (simp add: render_conflict_chip_def update_conv')

lemma resolve_after_merge:
  assumes "extract_text processor file = Inr text"
    and "parse_lab_results processor text = Inr document"
    and "is_document document"
    and "map_of (conflicts (process_pdf processor (Some file) st)) f = Some c"
  shows "map_of (patient_data (render_conflict_chip ''Use PDF value'' f c
            (process_pdf processor (Some file) st))) f = Some (pdf_value c)"
    and "map_of (patient_data (render_conflict_chip ''Keep form value'' f c
            (process_pdf processor (Some file) st))) f = Some (form_value c)"
  using render_conflict_chip_field [OF process_pdf_conflict_form_value [OF assms]]
  by simp_all

text \<open>
  C7 fails where the choice is changed back: in the scenario the conflict is resolved with
  "Use PDF value" and then with "Keep form value". The branch of "Use PDF value" wrote
  9.4; for "Keep form value" there is no branch, so the snapshot keeps the document value
  9.4, although the chosen value is the conflict's form value 8.2.
\<close>

theorem keep_form_value_after_pdf_value:
  "map_of (conflicts merged_94) ''hba1c'' = Some conflict_94
   \<and> map_of (patient_data merged_94) ''hba1c'' = Some (form_value conflict_94)
   \<and> map_of (patient_data (render_conflict_chip ''Use PDF value'' ''hba1c'' conflict_94 merged_94))
        ''hba1c'' = Some (pdf_value conflict_94)
   \<and> map_of (patient_data (render_conflict_chip ''Keep form value'' ''hba1c'' conflict_94
        (render_conflict_chip ''Use PDF value'' ''hba1c'' conflict_94 merged_94))) ''hba1c''
       = Some (pdf_value conflict_94)
   \<and> pdf_value conflict_94 \<noteq> form_value conflict_94"
  by (simp add: run_defs)

end
